theory Spec2Isabelle
  imports Main
begin

section \<open>Query state of the DataTable component\<close>

text \<open>
  The DataTable component keeps one \<open>query\<close> object and three draft fields of the
  filter form in React state. A filter is the object literal built in \<open>addFilter\<close>;
  the query is the object literal passed to \<open>useState\<close>. Numbers are JavaScript
  numbers used as integers (page numbers and page sizes), strings are strings.
\<close>

record table_filter =
  column :: string
  operator :: string
  fvalue :: string

record query =
  page :: int
  limit :: int
  sort_by :: string
  sort_order :: string
  search :: string
  filters :: "table_filter list"

text \<open>
  The state of one mounted DataTable. \<open>query_ref\<close> stands for the identity of the
  object held in \<open>query\<close>: every \<open>setQuery\<close> call of the source passes an updater
  that returns a fresh object literal, so the identity changes on every call, also when
  all fields keep their values. React compares effect dependencies by identity.
\<close>

record data_table =
  query :: query
  query_ref :: nat
  showFilters :: bool
  filterColumn :: string
  filterOperator :: string
  filterValue :: string

definition initial_query :: query where
  "initial_query =
     \<lparr>page = 1, limit = 10, sort_by = '''', sort_order = ''asc'', search = '''', filters = []\<rparr>"

definition initial_data_table :: data_table where
  "initial_data_table =
     \<lparr>query = initial_query, query_ref = 0, showFilters = False,
      filterColumn = '''', filterOperator = ''contains'', filterValue = ''''\<rparr>"

definition setQuery :: "(query \<Rightarrow> query) \<Rightarrow> data_table \<Rightarrow> data_table" where
  "setQuery f s = s\<lparr>query := f (query s), query_ref := Suc (query_ref s)\<rparr>"

definition handleSort :: "string \<Rightarrow> data_table \<Rightarrow> data_table" where
  "handleSort col =
     setQuery (\<lambda>prev. prev\<lparr>
       sort_by := col,
       sort_order := (if sort_by prev = col \<and> sort_order prev = ''asc'' then ''desc'' else ''asc''),
       page := 1\<rparr>)"

definition handleSearch :: "string \<Rightarrow> data_table \<Rightarrow> data_table" where
  "handleSearch txt = setQuery (\<lambda>prev. prev\<lparr>search := txt, page := 1\<rparr>)"

definition handlePageChange :: "int \<Rightarrow> data_table \<Rightarrow> data_table" where
  "handlePageChange n = setQuery (\<lambda>prev. prev\<lparr>page := n\<rparr>)"

definition handleLimitChange :: "int \<Rightarrow> data_table \<Rightarrow> data_table" where
  "handleLimitChange n = setQuery (\<lambda>prev. prev\<lparr>limit := n, page := 1\<rparr>)"

text \<open>
  \<open>addFilter\<close> takes no argument: it reads the draft fields. An empty string is the
  only falsy string, so \<open>!filterColumn || !filterValue\<close> is the test below.
\<close>

definition addFilter :: "data_table \<Rightarrow> data_table" where
  "addFilter s =
     (if filterColumn s = '''' \<or> filterValue s = '''' then s
      else
        let newFilter = \<lparr>column = filterColumn s, operator = filterOperator s,
                          fvalue = filterValue s\<rparr>;
            s1 = setQuery (\<lambda>prev. prev\<lparr>filters := filters prev @ [newFilter], page := 1\<rparr>) s
        in s1\<lparr>filterColumn := '''', filterValue := ''''\<rparr>)"

text \<open>\<open>Array.prototype.filter\<close> with the index as second argument of the callback.\<close>

definition filter_index :: "('a \<Rightarrow> nat \<Rightarrow> bool) \<Rightarrow> 'a list \<Rightarrow> 'a list" where
  "filter_index p xs = map fst (filter (\<lambda>(x, i). p x i) (zip xs [0..<length xs]))"

definition removeFilter :: "nat \<Rightarrow> data_table \<Rightarrow> data_table" where
  "removeFilter idx =
     setQuery (\<lambda>prev. prev\<lparr>filters := filter_index (\<lambda>_ i. i \<noteq> idx) (filters prev), page := 1\<rparr>)"

text \<open>
  The events of the component: the six handlers and the inline \<open>onChange\<close> and
  \<open>onClick\<close> callbacks that write the draft fields and the panel toggle.
\<close>

datatype event =
    HandleSort string
  | HandleSearch string
  | HandlePageChange int
  | HandleLimitChange int
  | AddFilter
  | RemoveFilter nat
  | SetFilterColumn string
  | SetFilterOperator string
  | SetFilterValue string
  | ToggleFilters

fun handle :: "event \<Rightarrow> data_table \<Rightarrow> data_table" where
  "handle (HandleSort col) s = handleSort col s"
| "handle (HandleSearch txt) s = handleSearch txt s"
| "handle (HandlePageChange n) s = handlePageChange n s"
| "handle (HandleLimitChange n) s = handleLimitChange n s"
| "handle AddFilter s = addFilter s"
| "handle (RemoveFilter idx) s = removeFilter idx s"
| "handle (SetFilterColumn c) s = s\<lparr>filterColumn := c\<rparr>"
| "handle (SetFilterOperator c) s = s\<lparr>filterOperator := c\<rparr>"
| "handle (SetFilterValue c) s = s\<lparr>filterValue := c\<rparr>"
| "handle ToggleFilters s = s\<lparr>showFilters := \<not> showFilters s\<rparr>"

definition run_events :: "data_table \<Rightarrow> event list \<Rightarrow> data_table" where
  "run_events s es = foldl (\<lambda>s e. handle e s) s es"

text \<open>An event is a Query mutation in a state when its handler calls \<open>setQuery\<close> there.\<close>

definition mutates :: "data_table \<Rightarrow> event \<Rightarrow> bool" where
  "mutates s e = (query_ref (handle e s) \<noteq> query_ref s)"

section \<open>Debounced synchronisation of the DataTable\<close>

text \<open>
  The effect of DataTable depends on \<open>query\<close> alone. It starts a timer of 300 time
  units whose callback passes the \<open>query\<close> of that render to \<open>onQueryChange\<close>, and
  it returns a cleanup that clears this very timer. React runs the effect after the
  first render and after every render in which the identity of \<open>query\<close> changed, runs
  the cleanup of the previous run before, and runs the last cleanup at unmount.

  The browser's timers are a table of entries with an identifier, a due time and the
  snapshot captured by the callback. Time is a virtual clock.
\<close>

record timer =
  tid :: nat
  due :: nat
  snapshot :: query

record table_view =
  table :: data_table
  timers :: "timer list"
  next_timer :: nat
  cleanup :: "nat option"
  clock :: nat
  fetched :: "query list"
  mounted :: bool

text \<open>\<open>setTimeout(() => onQueryChange(query), 300)\<close>, keeping the identifier for the cleanup.\<close>

definition query_effect :: "table_view \<Rightarrow> table_view" where
  "query_effect v =
     v\<lparr>timers := timers v @ [\<lparr>tid = next_timer v, due = clock v + 300,
                                 snapshot = query (table v)\<rparr>],
       next_timer := Suc (next_timer v),
       cleanup := Some (next_timer v)\<rparr>"

text \<open>\<open>clearTimeout(debounceTimer)\<close>, for the timer of the latest run of the effect.\<close>

definition run_cleanup :: "table_view \<Rightarrow> table_view" where
  "run_cleanup v =
     (case cleanup v of
        None \<Rightarrow> v
      | Some i \<Rightarrow> v\<lparr>timers := filter (\<lambda>tm. tid tm \<noteq> i) (timers v), cleanup := None\<rparr>)"

definition mount :: "nat \<Rightarrow> table_view" where
  "mount now =
     query_effect
       \<lparr>table = initial_data_table, timers = [], next_timer = 0, cleanup = None,
        clock = now, fetched = [], mounted = True\<rparr>"

definition unmount :: "table_view \<Rightarrow> table_view" where
  "unmount v = (run_cleanup v)\<lparr>mounted := False\<rparr>"

text \<open>
  A UI event runs its handler. When the handler replaced the \<open>query\<close> object, the
  render that follows runs the cleanup and the effect again. An unmounted component
  has no handlers left to call.
\<close>

definition dispatch :: "event \<Rightarrow> table_view \<Rightarrow> table_view" where
  "dispatch e v =
     (if \<not> mounted v then v
      else
        let v1 = v\<lparr>table := handle e (table v)\<rparr>
        in if query_ref (table v1) \<noteq> query_ref (table v) then query_effect (run_cleanup v1)
           else v1)"

text \<open>
  The clock moves to \<open>t\<close>: every timer that is due by then fires, in the order the
  timers were created (all have the same delay), and each callback calls
  \<open>onQueryChange\<close> with its snapshot.
\<close>

definition advance :: "nat \<Rightarrow> table_view \<Rightarrow> table_view" where
  "advance t v =
     v\<lparr>timers := filter (\<lambda>tm. \<not> due tm \<le> t) (timers v),
       fetched := fetched v @ map snapshot (filter (\<lambda>tm. due tm \<le> t) (timers v)),
       clock := max (clock v) t\<rparr>"

fun run :: "table_view \<Rightarrow> (nat \<times> event) list \<Rightarrow> table_view" where
  "run v [] = v"
| "run v ((t, e) # es) = run (dispatch e (advance t v)) es"

text \<open>At most one timer is pending, and it is the one the latest effect run created.\<close>

definition single_timer :: "table_view \<Rightarrow> bool" where
  "single_timer v =
     (case timers v of
        [] \<Rightarrow> True
      | [tm] \<Rightarrow> cleanup v = Some (tid tm)
      | _ \<Rightarrow> False)"

text \<open>
  A burst after a mutation at time \<open>t0\<close>: every event is a Query mutation and comes
  less than 300 time units after its predecessor.
\<close>

fun burst :: "nat \<Rightarrow> table_view \<Rightarrow> (nat \<times> event) list \<Rightarrow> bool" where
  "burst t0 v [] = True"
| "burst t0 v ((t, e) # es) =
     (t0 \<le> t \<and> t < t0 + 300 \<and> mutates (table v) e \<and> burst t (dispatch e (advance t v)) es)"

definition last_time :: "nat \<Rightarrow> (nat \<times> event) list \<Rightarrow> nat" where
  "last_time t0 es = last (t0 # map fst es)"

text \<open>
  After a Query mutation at time \<open>t0\<close>: the component is mounted, the clock shows
  \<open>t0\<close>, and the only timer is the one of the latest effect run, due at \<open>t0 + 300\<close>
  with the current query as its snapshot.
\<close>

definition armed :: "nat \<Rightarrow> table_view \<Rightarrow> bool" where
  "armed t0 v =
     (mounted v \<and> clock v = t0 \<and> map due (timers v) = [t0 + 300]
      \<and> map snapshot (timers v) = [query (table v)]
      \<and> map (\<lambda>tm. Some (tid tm)) (timers v) = [cleanup v])"

section \<open>Remote data gateway and session\<close>

text \<open>
  An axios error carries the response when the server answered; \<open>detail\<close> is
  \<open>response.data.detail\<close>.
\<close>

record response =
  status :: int
  detail :: "string option"

record axios_error =
  response :: "response option"

text \<open>\<open>error.response?.data?.detail || fallback\<close>\<close>

definition error_message :: "axios_error \<Rightarrow> string \<Rightarrow> string" where
  "error_message err fallback =
     (case response err of
        None \<Rightarrow> fallback
      | Some r \<Rightarrow>
          (case detail r of
             None \<Rightarrow> fallback
           | Some d \<Rightarrow> if d = '''' then fallback else d))"

type_synonym headers = "string \<rightharpoonup> string"

record profile =
  full_name :: string
  email :: string
  role :: string

record auth_response =
  access_token :: string
  resp_user :: profile

datatype toast = Success string | Error string

text \<open>
  The browser state the gateway reads and writes (\<open>localStorage\<close>,
  \<open>window.location.href\<close>), the requests put on the wire with their headers, and the
  state of the AuthProvider.
\<close>

record app =
  localStorage :: "string \<rightharpoonup> string"
  href :: string
  wire :: "(string \<times> headers) list"
  user :: "profile option"
  isLoading :: bool
  toasts :: "toast list"

definition default_headers :: headers where
  "default_headers = [''Content-Type'' \<mapsto> ''application/json'']"

definition request_interceptor :: "app \<Rightarrow> headers \<Rightarrow> headers" where
  "request_interceptor a h =
     (case localStorage a ''access_token'' of
        None \<Rightarrow> h
      | Some token \<Rightarrow> if token = '''' then h else h(''Authorization'' \<mapsto> ''Bearer '' @ token))"

definition response_error_interceptor :: "axios_error \<Rightarrow> app \<Rightarrow> app" where
  "response_error_interceptor err a =
     (case response err of
        None \<Rightarrow> a
      | Some r \<Rightarrow>
          if status r = 401
          then a\<lparr>localStorage := (localStorage a)(''access_token'' := None, ''user'' := None),
                 href := ''/login''\<rparr>
          else a)"

text \<open>
  One call through the axios instance: the request interceptor builds the headers, the
  request goes out, and the outcome the server gives comes back through the response
  interceptor. The rejected promise keeps its error.
\<close>

definition api_call :: "string \<Rightarrow> axios_error + 'r \<Rightarrow> app \<Rightarrow> (axios_error + 'r) \<times> app" where
  "api_call path outcome a =
     (let a1 = a\<lparr>wire := wire a @ [(path, request_interceptor a default_headers)]\<rparr>
      in case outcome of
           Inr r \<Rightarrow> (Inr r, a1)
         | Inl err \<Rightarrow> (Inl err, response_error_interceptor err a1))"

text \<open>
  \<open>login\<close> and \<open>register\<close> of the AuthProvider. \<open>stringify\<close> is \<open>JSON.stringify\<close>
  on the user object. \<open>Inl\<close> is the rethrown error.
\<close>

definition login ::
  "(profile \<Rightarrow> string) \<Rightarrow> axios_error + auth_response \<Rightarrow> app \<Rightarrow> (axios_error + unit) \<times> app" where
  "login stringify outcome a =
     (let (r, a1) = api_call ''/auth/login'' outcome (a\<lparr>isLoading := True\<rparr>)
      in case r of
           Inr resp \<Rightarrow>
             (Inr (),
              a1\<lparr>localStorage := (localStorage a1)
                     (''access_token'' \<mapsto> access_token resp,
                      ''user'' \<mapsto> stringify (resp_user resp)),
                 user := Some (resp_user resp),
                 toasts := toasts a1 @ [Success (''Welcome back, '' @ full_name (resp_user resp) @ ''!'')],
                 isLoading := False\<rparr>)
         | Inl err \<Rightarrow>
             (Inl err,
              a1\<lparr>toasts := toasts a1 @ [Error (error_message err ''Login failed'')],
                 isLoading := False\<rparr>))"

definition register ::
  "(profile \<Rightarrow> string) \<Rightarrow> axios_error + auth_response \<Rightarrow> app \<Rightarrow> (axios_error + unit) \<times> app" where
  "register stringify outcome a =
     (let (r, a1) = api_call ''/auth/register'' outcome (a\<lparr>isLoading := True\<rparr>)
      in case r of
           Inr resp \<Rightarrow>
             (Inr (),
              a1\<lparr>localStorage := (localStorage a1)
                     (''access_token'' \<mapsto> access_token resp,
                      ''user'' \<mapsto> stringify (resp_user resp)),
                 user := Some (resp_user resp),
                 toasts := toasts a1 @
                   [Success (''Welcome to DataViz Pro, '' @ full_name (resp_user resp) @ ''!'')],
                 isLoading := False\<rparr>)
         | Inl err \<Rightarrow>
             (Inl err,
              a1\<lparr>toasts := toasts a1 @ [Error (error_message err ''Registration failed'')],
                 isLoading := False\<rparr>))"

definition logout :: "app \<Rightarrow> app" where
  "logout a =
     a\<lparr>localStorage := (localStorage a)(''access_token'' := None, ''user'' := None),
       user := None,
       toasts := toasts a @ [Success ''Logged out successfully'']\<rparr>"

text \<open>
  \<open>initAuth\<close>, the effect the AuthProvider runs when it mounts (at every page load).
  \<open>parse\<close> is \<open>JSON.parse\<close> on the saved user, \<open>None\<close> when it throws.
\<close>

definition initAuth :: "(string \<Rightarrow> profile option) \<Rightarrow> axios_error + unit \<Rightarrow> app \<Rightarrow> app" where
  "initAuth parse outcome a =
     (case (localStorage a ''access_token'', localStorage a ''user'') of
        (Some token, Some savedUser) \<Rightarrow>
          if token = '''' \<or> savedUser = '''' then a\<lparr>isLoading := False\<rparr>
          else
            (case parse savedUser of
               None \<Rightarrow>
                 a\<lparr>localStorage := (localStorage a)(''access_token'' := None, ''user'' := None),
                   user := None, isLoading := False\<rparr>
             | Some userData \<Rightarrow>
                 let (r, a1) = api_call ''/auth/me'' outcome (a\<lparr>user := Some userData\<rparr>)
                 in case r of
                      Inr _ \<Rightarrow> a1\<lparr>isLoading := False\<rparr>
                    | Inl err \<Rightarrow>
                        a1\<lparr>localStorage :=
                             (localStorage a1)(''access_token'' := None, ''user'' := None),
                           user := None, isLoading := False\<rparr>)
      | _ \<Rightarrow> a\<lparr>isLoading := False\<rparr>)"

text \<open>
  What the application does with the gateway over time: any call of \<open>authAPI\<close> or
  \<open>datasetAPI\<close> other than login and register (its path and the server's outcome; the
  payload plays no part in the session), a login, a registration, a logout, and a page
  load, where the AuthProvider starts with no user and runs \<open>initAuth\<close>.
\<close>

datatype session_event =
    Call string "axios_error + unit"
  | Login "axios_error + auth_response"
  | Register "axios_error + auth_response"
  | Logout
  | PageLoad "axios_error + unit"

record codec =
  stringify :: "profile \<Rightarrow> string"
  parse :: "string \<Rightarrow> profile option"

fun session_step :: "codec \<Rightarrow> session_event \<Rightarrow> app \<Rightarrow> app" where
  "session_step js (Call path outcome) a = snd (api_call path outcome a)"
| "session_step js (Login outcome) a = snd (login (stringify js) outcome a)"
| "session_step js (Register outcome) a = snd (register (stringify js) outcome a)"
| "session_step js Logout a = logout a"
| "session_step js (PageLoad outcome) a =
     initAuth (parse js) outcome (a\<lparr>user := None, isLoading := True\<rparr>)"

definition session_run :: "codec \<Rightarrow> session_event list \<Rightarrow> app \<Rightarrow> app" where
  "session_run js es a = foldl (\<lambda>a e. session_step js e a) a es"

fun signs_in :: "session_event \<Rightarrow> bool" where
  "signs_in (Login (Inr _)) = True"
| "signs_in (Register (Inr _)) = True"
| "signs_in _ = False"

definition no_bearer :: "(string \<times> headers) list \<Rightarrow> bool" where
  "no_bearer ws = list_all (\<lambda>(path, h). h ''Authorization'' = None) ws"

text \<open>\<open>error.response?.status === 401\<close>\<close>

definition unauthorized :: "axios_error \<Rightarrow> bool" where
  "unauthorized err = (case response err of None \<Rightarrow> False | Some r \<Rightarrow> status r = 401)"

text \<open>The error of an event whose gateway call was rejected.\<close>

fun failure_of :: "session_event \<Rightarrow> axios_error option" where
  "failure_of (Call path (Inl err)) = Some err"
| "failure_of (Login (Inl err)) = Some err"
| "failure_of (Register (Inl err)) = Some err"
| "failure_of _ = None"

section \<open>DatasetView: loading a page of rows\<close>

text \<open>
  The answer to a page request: \<open>rows\<close> is the \<open>data\<close> array of the response (a row
  lists its cells by column), \<open>current_page\<close> is the \<open>page\<close> of its pagination object.
\<close>

record pagination =
  current_page :: int
  pages :: int
  total :: int

record page_result =
  rows :: "(string \<times> string) list list"
  pagination :: pagination

datatype request =
    GetAll
  | GetStats string
  | GetData string query

text \<open>
  The state of DatasetView that its loaders touch. \<open>route_id\<close> is the \<open>id\<close> of
  \<open>useParams\<close>; \<open>dataset\<close> and \<open>stats\<close> hold opaque payloads; \<open>sent\<close> lists the gateway
  calls in the order they were issued; \<open>navigated\<close> lists the \<open>navigate\<close> calls.
\<close>

record dataset_view =
  route_id :: "string option"
  dataset :: "string option"
  stats :: "string option"
  data :: "page_result option"
  view_isLoading :: bool
  isDataLoading :: bool
  view_toasts :: "string list"
  navigated :: "string list"
  sent :: "request list"

text \<open>DatasetView as \<open>useState\<close> creates it, for the route parameter \<open>i\<close>.\<close>

definition initial_dataset_view :: "string option \<Rightarrow> dataset_view" where
  "initial_dataset_view i =
     \<lparr>route_id = i, dataset = None, stats = None, data = None, view_isLoading = True,
      isDataLoading = False, view_toasts = [], navigated = [], sent = []\<rparr>"

text \<open>
  \<open>if (!id) return\<close> and \<open>if (id)\<close>: the route parameter is missing or the empty string.
\<close>

definition falsy_id :: "string option \<Rightarrow> bool" where
  "falsy_id i = (case i of None \<Rightarrow> True | Some s \<Rightarrow> s = '''')"

text \<open>The route parameter as the template literal of a path prints it.\<close>

definition id_of :: "string option \<Rightarrow> string" where
  "id_of i = (case i of None \<Rightarrow> ''undefined'' | Some s \<Rightarrow> s)"

text \<open>
  \<open>loadData\<close> up to its \<open>await\<close>, and its continuation once the gateway call has
  settled. The continuation has no knowledge of which call it belongs to.
\<close>

definition loadData_start :: "query \<Rightarrow> dataset_view \<Rightarrow> dataset_view" where
  "loadData_start q v =
     (if falsy_id (route_id v) then v
      else v\<lparr>isDataLoading := True, sent := sent v @ [GetData (id_of (route_id v)) q]\<rparr>)"

definition loadData_settle :: "axios_error + page_result \<Rightarrow> dataset_view \<Rightarrow> dataset_view" where
  "loadData_settle outcome v =
     (case outcome of
        Inr result \<Rightarrow> v\<lparr>data := Some result, isDataLoading := False\<rparr>
      | Inl err \<Rightarrow>
          v\<lparr>view_toasts := view_toasts v @ [error_message err ''Failed to load data''],
            isDataLoading := False\<rparr>)"

text \<open>
  A trace of the view: a fetch is issued, or the fetch issued as number \<open>n\<close> (counting
  from 0) settles with an outcome.
\<close>

datatype view_event =
    Issue query
  | Settle nat "axios_error + page_result"

fun view_step :: "view_event \<Rightarrow> dataset_view \<Rightarrow> dataset_view" where
  "view_step (Issue q) v = loadData_start q v"
| "view_step (Settle n outcome) v = loadData_settle outcome v"

definition view_run :: "view_event list \<Rightarrow> dataset_view \<Rightarrow> dataset_view" where
  "view_run es v = foldl (\<lambda>v e. view_step e v) v es"

text \<open>In a well-formed trace a fetch settles once, after it was issued.\<close>

fun well_formed :: "nat \<Rightarrow> nat list \<Rightarrow> view_event list \<Rightarrow> bool" where
  "well_formed issued settled [] = True"
| "well_formed issued settled (Issue q # es) = well_formed (Suc issued) settled es"
| "well_formed issued settled (Settle n outcome # es) =
     (n < issued \<and> n \<notin> set settled \<and> well_formed issued (n # settled) es)"

text \<open>The result of the last successful settlement in a trace, if there is one.\<close>

fun last_resolved :: "view_event list \<Rightarrow> page_result option \<Rightarrow> page_result option" where
  "last_resolved [] r = r"
| "last_resolved (Settle n (Inr result) # es) r = last_resolved es (Some result)"
| "last_resolved (_ # es) r = last_resolved es r"

text \<open>
  The mount effect of DatasetView. \<open>loadDataset\<close> and \<open>loadStats\<close> are started together
  and both catch their own errors, so \<open>Promise.all\<close> is fulfilled whatever the server
  answers, and \<open>loadData\<close> is called next with the literal written in the source.
\<close>

definition loadDataset_settle :: "axios_error + string list \<Rightarrow> dataset_view \<Rightarrow> dataset_view" where
  "loadDataset_settle outcome v =
     (case outcome of
        Inr datasets \<Rightarrow>
          (case find (\<lambda>d. Some d = route_id v) datasets of
             Some d \<Rightarrow> v\<lparr>dataset := Some d\<rparr>
           | None \<Rightarrow>
               v\<lparr>view_toasts := view_toasts v @ [''Dataset not found''],
                 navigated := navigated v @ [''/'']\<rparr>)
      | Inl err \<Rightarrow>
          v\<lparr>view_toasts := view_toasts v @ [error_message err ''Failed to load dataset''],
            navigated := navigated v @ [''/'']\<rparr>)"

definition loadStats_settle :: "axios_error + string \<Rightarrow> dataset_view \<Rightarrow> dataset_view" where
  "loadStats_settle outcome v =
     (case outcome of
        Inr statsData \<Rightarrow> v\<lparr>stats := Some statsData\<rparr>
      | Inl err \<Rightarrow> v\<lparr>view_toasts := view_toasts v @ [error_message err ''Failed to load stats'']\<rparr>)"

definition loadDataset_start :: "dataset_view \<Rightarrow> dataset_view" where
  "loadDataset_start v = v\<lparr>sent := sent v @ [GetAll]\<rparr>"

definition loadStats_start :: "dataset_view \<Rightarrow> dataset_view" where
  "loadStats_start v =
     (if falsy_id (route_id v) then v
      else v\<lparr>sent := sent v @ [GetStats (id_of (route_id v))]\<rparr>)"

text \<open>
  \<open>loadAllData\<close> up to the \<open>await\<close> of \<open>loadData\<close>: both loaders are started, both
  settle, and the first page is requested.
\<close>

definition loadAllData ::
  "axios_error + string list \<Rightarrow> axios_error + string \<Rightarrow> dataset_view \<Rightarrow> dataset_view" where
  "loadAllData out_all out_stats v =
     (let v1 = v\<lparr>view_isLoading := True\<rparr>;
          v2 = loadStats_start (loadDataset_start v1);
          v3 = loadStats_settle out_stats (loadDataset_settle out_all v2);
          v4 = loadData_start
                 \<lparr>page = 1, limit = 10, sort_by = '''', sort_order = ''asc'', search = '''',
                  filters = []\<rparr> v3
      in v4)"

definition view_mount_effect ::
  "axios_error + string list \<Rightarrow> axios_error + string \<Rightarrow> dataset_view \<Rightarrow> dataset_view" where
  "view_mount_effect out_all out_stats v =
     (if falsy_id (route_id v) then v else loadAllData out_all out_stats v)"

fun data_queries :: "request list \<Rightarrow> query list" where
  "data_queries [] = []"
| "data_queries (GetData i q # rs) = q # data_queries rs"
| "data_queries (_ # rs) = data_queries rs"

section \<open>Chart configuration of the ChartContainer\<close>

text \<open>
  \<open>chartConfig\<close> is an object written through a computed key, so it is a map from
  field names to strings. \<open>config_ref\<close> is the identity of the object, as for the
  query. \<open>chart_calls\<close> lists the \<open>datasetAPI.generateChart\<close> calls with their arguments.
\<close>

type_synonym chart_config = "string \<rightharpoonup> string"

record chart_container =
  chartConfig :: chart_config
  config_ref :: nat
  datasetId :: string
  chartData :: "string option"
  chart_isLoading :: bool
  chart_toasts :: "string list"
  chart_calls :: "(string \<times> chart_config) list"

text \<open>\<open>xs[0] || ''\<close>\<close>

definition first_or_empty :: "string list \<Rightarrow> string" where
  "first_or_empty xs = (case xs of [] \<Rightarrow> '''' | x # _ \<Rightarrow> x)"

definition initial_chartConfig :: "string list \<Rightarrow> string list \<Rightarrow> chart_config" where
  "initial_chartConfig columns numericColumns =
     [''chart_type'' \<mapsto> ''bar'',
      ''x_axis'' \<mapsto> first_or_empty columns,
      ''y_axis'' \<mapsto> first_or_empty numericColumns,
      ''group_by'' \<mapsto> '''',
      ''aggregate'' \<mapsto> ''count'']"

definition setChartConfig :: "(chart_config \<Rightarrow> chart_config) \<Rightarrow> chart_container \<Rightarrow> chart_container" where
  "setChartConfig f s = s\<lparr>chartConfig := f (chartConfig s), config_ref := Suc (config_ref s)\<rparr>"

definition handleConfigChange :: "string \<Rightarrow> string \<Rightarrow> chart_container \<Rightarrow> chart_container" where
  "handleConfigChange key v = setChartConfig (\<lambda>prev. prev(key \<mapsto> v))"

text \<open>\<open>generateChart\<close> up to its \<open>await\<close>, and its continuation.\<close>

definition generateChart_start :: "chart_container \<Rightarrow> chart_container" where
  "generateChart_start s =
     s\<lparr>chart_isLoading := True, chart_calls := chart_calls s @ [(datasetId s, chartConfig s)]\<rparr>"

definition generateChart_settle :: "axios_error + string \<Rightarrow> chart_container \<Rightarrow> chart_container" where
  "generateChart_settle outcome s =
     (case outcome of
        Inr d \<Rightarrow> s\<lparr>chartData := Some d, chart_isLoading := False\<rparr>
      | Inl err \<Rightarrow>
          s\<lparr>chart_toasts := chart_toasts s @ [error_message err ''Failed to generate chart''],
            chart_isLoading := False\<rparr>)"

definition truthy :: "string option \<Rightarrow> bool" where
  "truthy x = (case x of None \<Rightarrow> False | Some s \<Rightarrow> s \<noteq> '''')"

text \<open>The effect body: \<open>if (chartConfig.x_axis) generateChart()\<close>.\<close>

definition chart_effect :: "chart_container \<Rightarrow> chart_container" where
  "chart_effect s = (if truthy (chartConfig s ''x_axis'') then generateChart_start s else s)"

text \<open>
  After an update React runs the effect when one of its dependencies,
  \<open>chartConfig\<close> (by identity) or \<open>datasetId\<close> (by value), differs from the
  previous render.
\<close>

definition chart_commit :: "chart_container \<Rightarrow> chart_container \<Rightarrow> chart_container" where
  "chart_commit old new =
     (if config_ref new \<noteq> config_ref old \<or> datasetId new \<noteq> datasetId old
      then chart_effect new else new)"

datatype chart_event =
    HandleConfigChange string string
  | DatasetIdProp string
  | Refresh
  | ChartSettle "axios_error + string"

fun chart_step :: "chart_event \<Rightarrow> chart_container \<Rightarrow> chart_container" where
  "chart_step (HandleConfigChange key v) s = chart_commit s (handleConfigChange key v s)"
| "chart_step (DatasetIdProp i) s = chart_commit s (s\<lparr>datasetId := i\<rparr>)"
| "chart_step Refresh s = (if chart_isLoading s then s else generateChart_start s)"
| "chart_step (ChartSettle outcome) s = chart_commit s (generateChart_settle outcome s)"

definition chart_mount :: "string \<Rightarrow> string list \<Rightarrow> string list \<Rightarrow> chart_container" where
  "chart_mount i columns numericColumns =
     chart_effect
       \<lparr>chartConfig = initial_chartConfig columns numericColumns, config_ref = 0,
        datasetId = i, chartData = None, chart_isLoading = False, chart_toasts = [],
        chart_calls = []\<rparr>"

section \<open>Properties of the Query state\<close>

lemmas handler_defs = handleSort_def handleSearch_def handlePageChange_def
  handleLimitChange_def addFilter_def removeFilter_def setQuery_def Let_def

lemma run_events_snoc: "run_events s (es @ [e]) = handle e (run_events s es)"
  by (simp add: run_events_def)

lemma mutates_cases:
  "mutates s e =
     (case e of
        AddFilter \<Rightarrow> filterColumn s \<noteq> '''' \<and> filterValue s \<noteq> ''''
      | SetFilterColumn _ \<Rightarrow> False
      | SetFilterOperator _ \<Rightarrow> False
      | SetFilterValue _ \<Rightarrow> False
      | ToggleFilters \<Rightarrow> False
      | _ \<Rightarrow> True)"
  by (cases e) (simp_all add: mutates_def handler_defs)

lemma filter_index_shift:
  "map fst (filter (\<lambda>(x, i). i \<noteq> k + idx) (zip xs [k..<k + length xs])) =
     take idx xs @ drop (Suc idx) xs"
proof (induction xs arbitrary: k idx)
  case Nil
  then show ?case by simp
next
  case (Cons x xs)
  have up: "[k..<k + length (x # xs)] = k # [Suc k..<Suc k + length xs]"
    by (subst upt_rec) simp
  show ?case
  proof (cases idx)
    case 0
    have "filter (\<lambda>(x, i). i \<noteq> k) (zip xs [Suc k..<Suc k + length xs])
        = zip xs [Suc k..<Suc k + length xs]"
      by (rule filter_True) (auto dest: set_zip_rightD)
    then show ?thesis unfolding up 0 by (simp del: upt_Suc)
  next
    case (Suc j)
    from Cons.IH [of "Suc k" j] show ?thesis unfolding up Suc by (simp del: upt_Suc)
  qed
qed

text \<open>\<open>removeFilter idx\<close> drops the filter at position \<open>idx\<close>, if there is one.\<close>

lemma removeFilter_filters:
  "filters (query (removeFilter idx s)) = take idx (filters (query s)) @ drop (Suc idx) (filters (query s))"
  using filter_index_shift [of 0 idx "filters (query s)"]
  by (simp add: removeFilter_def setQuery_def filter_index_def)

text \<open>
  Claim C1. After any sequence of events, from any state, each of \<open>handleSort\<close>,
  \<open>handleSearch\<close>, \<open>handleLimitChange\<close>, \<open>removeFilter\<close>, and \<open>addFilter\<close> with a
  non-empty draft column and value, leaves \<open>page = 1\<close>; \<open>handlePageChange n\<close> leaves
  \<open>page = n\<close>; and a Query mutation that ends with a page other than 1 can only be a
  \<open>handlePageChange\<close>.
\<close>

theorem page_reset:
  "page (query (handleSort col (run_events s es))) = 1
   \<and> page (query (handleSearch txt (run_events s es))) = 1
   \<and> page (query (handleLimitChange n (run_events s es))) = 1
   \<and> (filterColumn (run_events s es) \<noteq> '''' \<and> filterValue (run_events s es) \<noteq> ''''
        \<longrightarrow> page (query (addFilter (run_events s es))) = 1)
   \<and> page (query (removeFilter idx (run_events s es))) = 1
   \<and> page (query (handlePageChange m (run_events s es))) = m
   \<and> (mutates (run_events s es) e \<and> page (query (handle e (run_events s es))) \<noteq> 1
        \<longrightarrow> (\<exists>k. e = HandlePageChange k))"
  by (cases e) (simp_all add: handler_defs mutates_def)

theorem page_reset_witness:
  "filterColumn (run_events (initial_data_table\<lparr>filterColumn := ''age'', filterValue := ''30''\<rparr>)
      [HandlePageChange 4]) \<noteq> ''''
   \<and> filterValue (run_events (initial_data_table\<lparr>filterColumn := ''age'', filterValue := ''30''\<rparr>)
      [HandlePageChange 4]) \<noteq> ''''
   \<and> page (query (run_events (initial_data_table\<lparr>filterColumn := ''age'', filterValue := ''30''\<rparr>)
      [HandlePageChange 4])) = 4
   \<and> page (query (addFilter (run_events
      (initial_data_table\<lparr>filterColumn := ''age'', filterValue := ''30''\<rparr>)
      [HandlePageChange 4]))) = 1
   \<and> page (query (handlePageChange 7 (run_events
      (initial_data_table\<lparr>filterColumn := ''age'', filterValue := ''30''\<rparr>)
      [HandlePageChange 4]))) = 7"
proof -
  have draft: "filterColumn (run_events
        (initial_data_table\<lparr>filterColumn := ''age'', filterValue := ''30''\<rparr>)
        [HandlePageChange 4]) \<noteq> ''''
      \<and> filterValue (run_events
        (initial_data_table\<lparr>filterColumn := ''age'', filterValue := ''30''\<rparr>)
        [HandlePageChange 4]) \<noteq> ''''"
    by (simp add: run_events_def handler_defs initial_data_table_def)
  have before: "page (query (run_events
        (initial_data_table\<lparr>filterColumn := ''age'', filterValue := ''30''\<rparr>)
        [HandlePageChange 4])) = 4"
    by (simp add: run_events_def handler_defs initial_data_table_def)
  from draft before
    page_reset [of "''name''"
      "initial_data_table\<lparr>filterColumn := ''age'', filterValue := ''30''\<rparr>"
      "[HandlePageChange 4]" "''a''" 25 0 7 "HandlePageChange 7"]
  show ?thesis by blast
qed

text \<open>
  Claim C4. \<open>handleSort col\<close> on a state sorted by \<open>col\<close> turns \<open>asc\<close> into \<open>desc\<close>
  and \<open>desc\<close> into \<open>asc\<close>; on a state sorted by another column it sets \<open>sort_by\<close> to
  \<open>col\<close> and \<open>sort_order\<close> to \<open>asc\<close>; in both cases \<open>page\<close> becomes 1. Hence three
  calls on the same column, starting from an empty \<open>sort_by\<close>, give \<open>asc\<close>, \<open>desc\<close>,
  \<open>asc\<close>.
\<close>

theorem sort_toggle:
  "(sort_by (query s) = col \<and> sort_order (query s) = ''asc''
      \<longrightarrow> sort_order (query (handleSort col s)) = ''desc'')
   \<and> (sort_by (query s) = col \<and> sort_order (query s) = ''desc''
      \<longrightarrow> sort_order (query (handleSort col s)) = ''asc'')
   \<and> (sort_by (query s) \<noteq> col
      \<longrightarrow> sort_order (query (handleSort col s)) = ''asc'')
   \<and> sort_by (query (handleSort col s)) = col
   \<and> page (query (handleSort col s)) = 1
   \<and> (sort_by (query s) = '''' \<and> col \<noteq> ''''
      \<longrightarrow> sort_order (query (handleSort col s)) = ''asc''
        \<and> sort_order (query (handleSort col (handleSort col s))) = ''desc''
        \<and> sort_order (query (handleSort col (handleSort col (handleSort col s)))) = ''asc'')"
  by (auto simp add: handler_defs)

theorem sort_toggle_witness:
  "sort_by (query initial_data_table) = '''' \<and> ''name'' \<noteq> ''''
   \<and> sort_order (query (handleSort ''name'' initial_data_table)) = ''asc''
   \<and> sort_order (query (handleSort ''name'' (handleSort ''name'' initial_data_table))) = ''desc''
   \<and> sort_order (query (handleSort ''name'' (handleSort ''name''
        (handleSort ''name'' initial_data_table)))) = ''asc''
   \<and> page (query (handleSort ''name'' initial_data_table)) = 1"
proof -
  have start: "sort_by (query initial_data_table) = '''' \<and> ''name'' \<noteq> ''''"
    by (simp add: initial_data_table_def initial_query_def)
  from start sort_toggle [of initial_data_table "''name''"] show ?thesis by blast
qed

text \<open>
  Claim C5, as amended. \<open>addFilter\<close> with an empty draft column or an empty draft value
  changes nothing. With both non-empty it appends the drafted filter at the end of
  \<open>filters\<close>, sets \<open>page\<close> to 1 and leaves the other Query fields alone; it empties
  the draft column and the draft value, and the draft operator keeps its selection.
\<close>

theorem addFilter_effect:
  "(filterColumn s = '''' \<or> filterValue s = '''' \<longrightarrow> addFilter s = s)
   \<and> (filterColumn s \<noteq> '''' \<and> filterValue s \<noteq> '''' \<longrightarrow>
        query (addFilter s) =
          (query s)\<lparr>filters := filters (query s) @
              [\<lparr>column = filterColumn s, operator = filterOperator s, fvalue = filterValue s\<rparr>],
            page := 1\<rparr>
        \<and> filterColumn (addFilter s) = ''''
        \<and> filterValue (addFilter s) = ''''
        \<and> filterOperator (addFilter s) = filterOperator s)"
  by (simp add: handler_defs)

theorem addFilter_effect_witness:
  "filterColumn (initial_data_table
      \<lparr>filterColumn := ''age'', filterOperator := ''gt'', filterValue := ''30''\<rparr>) \<noteq> ''''
   \<and> filterValue (initial_data_table
      \<lparr>filterColumn := ''age'', filterOperator := ''gt'', filterValue := ''30''\<rparr>) \<noteq> ''''
   \<and> query (addFilter (initial_data_table
      \<lparr>filterColumn := ''age'', filterOperator := ''gt'', filterValue := ''30''\<rparr>)) =
      \<lparr>page = 1, limit = 10, sort_by = '''', sort_order = ''asc'', search = '''',
       filters = [\<lparr>column = ''age'', operator = ''gt'', fvalue = ''30''\<rparr>]\<rparr>
   \<and> (filterColumn (initial_data_table\<lparr>filterValue := ''30''\<rparr>) = ''''
        \<or> filterValue (initial_data_table\<lparr>filterValue := ''30''\<rparr>) = '''')
   \<and> addFilter (initial_data_table\<lparr>filterValue := ''30''\<rparr>)
        = initial_data_table\<lparr>filterValue := ''30''\<rparr>"
proof -
  have full: "filterColumn (initial_data_table
        \<lparr>filterColumn := ''age'', filterOperator := ''gt'', filterValue := ''30''\<rparr>) \<noteq> ''''
      \<and> filterValue (initial_data_table
        \<lparr>filterColumn := ''age'', filterOperator := ''gt'', filterValue := ''30''\<rparr>) \<noteq> ''''"
    by simp
  have part: "filterColumn (initial_data_table\<lparr>filterValue := ''30''\<rparr>) = ''''
      \<or> filterValue (initial_data_table\<lparr>filterValue := ''30''\<rparr>) = ''''"
    by (simp add: initial_data_table_def)
  from full
    addFilter_effect [of "initial_data_table
      \<lparr>filterColumn := ''age'', filterOperator := ''gt'', filterValue := ''30''\<rparr>"]
  have "query (addFilter (initial_data_table
      \<lparr>filterColumn := ''age'', filterOperator := ''gt'', filterValue := ''30''\<rparr>)) =
      \<lparr>page = 1, limit = 10, sort_by = '''', sort_order = ''asc'', search = '''',
       filters = [\<lparr>column = ''age'', operator = ''gt'', fvalue = ''30''\<rparr>]\<rparr>"
    by (simp add: initial_data_table_def initial_query_def)
  moreover from part addFilter_effect [of "initial_data_table\<lparr>filterValue := ''30''\<rparr>"]
  have "addFilter (initial_data_table\<lparr>filterValue := ''30''\<rparr>)
      = initial_data_table\<lparr>filterValue := ''30''\<rparr>"
    by blast
  ultimately show ?thesis using full part by blast
qed

text \<open>
  The claim as it was stated has all draft fields of the filter form cleared. After
  adding the filter drafted as \<open>age gt 30\<close> the draft operator is still \<open>gt\<close>: it is
  neither empty nor back at \<open>contains\<close>, the value the form starts with.
\<close>

theorem addFilter_draft_counterexample:
  "filterOperator (addFilter (initial_data_table
      \<lparr>filterColumn := ''age'', filterOperator := ''gt'', filterValue := ''30''\<rparr>)) = ''gt''
   \<and> filterOperator (addFilter (initial_data_table
      \<lparr>filterColumn := ''age'', filterOperator := ''gt'', filterValue := ''30''\<rparr>)) \<noteq> ''''
   \<and> filterOperator (addFilter (initial_data_table
      \<lparr>filterColumn := ''age'', filterOperator := ''gt'', filterValue := ''30''\<rparr>))
      \<noteq> filterOperator initial_data_table"
  by (simp add: handler_defs initial_data_table_def)

text \<open>
  Claim C8. \<open>handlePageChange n\<close> sets \<open>page\<close> to \<open>n\<close> for every integer \<open>n\<close>, with no
  clamping, and leaves \<open>limit\<close>, \<open>sort_by\<close>, \<open>sort_order\<close>, \<open>search\<close> and \<open>filters\<close>
  as they were.
\<close>

theorem page_change_frame:
  "query (handlePageChange n s) = (query s)\<lparr>page := n\<rparr>
   \<and> page (query (handlePageChange n s)) = n
   \<and> limit (query (handlePageChange n s)) = limit (query s)
   \<and> sort_by (query (handlePageChange n s)) = sort_by (query s)
   \<and> sort_order (query (handlePageChange n s)) = sort_order (query s)
   \<and> search (query (handlePageChange n s)) = search (query s)
   \<and> filters (query (handlePageChange n s)) = filters (query s)"
  by (simp add: handler_defs)

theorem page_change_frame_witness:
  "page (query (handlePageChange (- 5) initial_data_table)) = - 5
   \<and> page (query (handlePageChange 0 initial_data_table)) = 0
   \<and> limit (query (handlePageChange (- 5) initial_data_table)) = 10
   \<and> filters (query (handlePageChange (- 5) initial_data_table)) = []"
  using page_change_frame [of "- 5" initial_data_table] page_change_frame [of 0 initial_data_table]
  by (simp add: initial_data_table_def initial_query_def)

section \<open>Properties of the debounced synchronisation\<close>

lemma timers_run_cleanup: "single_timer v \<Longrightarrow> timers (run_cleanup v) = []"
  by (cases "timers v")
     (auto simp: single_timer_def run_cleanup_def split: option.splits list.splits)

lemma single_timer_advance: "single_timer v \<Longrightarrow> single_timer (advance t v)"
  by (cases "timers v") (auto simp: advance_def single_timer_def split: list.splits)

lemma single_timer_query_effect: "timers v = [] \<Longrightarrow> single_timer (query_effect v)"
  by (simp add: query_effect_def single_timer_def)

lemma single_timer_table: "single_timer (v\<lparr>table := c\<rparr>) = single_timer v"
  by (simp add: single_timer_def split: list.splits)

lemma single_timer_dispatch: "single_timer v \<Longrightarrow> single_timer (dispatch e v)"
  by (simp add: dispatch_def Let_def single_timer_table single_timer_query_effect
      timers_run_cleanup)

lemma single_timer_mount: "single_timer (mount now)"
  by (simp add: mount_def single_timer_query_effect)

lemma single_timer_unmount: "single_timer v \<Longrightarrow> single_timer (unmount v)"
  by (simp add: unmount_def single_timer_def timers_run_cleanup)

text \<open>Every state a mounted DataTable can reach has at most one timer.\<close>

lemma single_timer_run: "single_timer v \<Longrightarrow> single_timer (run v es)"
  by (induction es arbitrary: v) (auto simp: single_timer_dispatch single_timer_advance)

lemma reachable_single_timer: "single_timer (run (mount now) es)"
  by (simp add: single_timer_run single_timer_mount)

lemma armed_single_timer: "armed t0 v \<Longrightarrow> single_timer v"
  by (cases "timers v") (auto simp: armed_def single_timer_def)

lemma dispatch_mutation:
  assumes "single_timer v" "mounted v" "mutates (table v) e"
  shows "armed (clock v) (dispatch e v) \<and> fetched (dispatch e v) = fetched v
         \<and> table (dispatch e v) = handle e (table v)"
proof -
  have "timers (run_cleanup (v\<lparr>table := handle e (table v)\<rparr>)) = []"
    using assms(1) by (simp add: timers_run_cleanup single_timer_table)
  then show ?thesis
    using assms(2,3)
    by (auto simp: dispatch_def Let_def mutates_def armed_def query_effect_def run_cleanup_def
        split: option.splits)
qed

text \<open>
  An event that is no Query mutation (an edit of the filter draft, a rejected
  \<open>addFilter\<close>, the panel toggle) leaves the query, the timers and the fetches alone.
\<close>

lemma dispatch_no_mutation:
  assumes "\<not> mutates (table v) e"
  shows "query (table (dispatch e v)) = query (table v) \<and> timers (dispatch e v) = timers v
         \<and> cleanup (dispatch e v) = cleanup v \<and> fetched (dispatch e v) = fetched v"
  using assms
  by (cases e) (simp_all add: mutates_cases dispatch_def Let_def handler_defs)

lemma advance_early:
  assumes "armed t0 v" "t0 \<le> T" "T < t0 + 300"
  shows "timers (advance T v) = timers v \<and> fetched (advance T v) = fetched v
         \<and> clock (advance T v) = T \<and> table (advance T v) = table v
         \<and> cleanup (advance T v) = cleanup v \<and> mounted (advance T v)"
proof -
  obtain tm where tm: "timers v = [tm]" "due tm = t0 + 300"
    using assms(1) by (cases "timers v") (auto simp: armed_def)
  show ?thesis using assms tm by (simp add: advance_def armed_def max_def)
qed

lemma advance_before_due:
  assumes "armed t0 v" "T < t0 + 300"
  shows "fetched (advance T v) = fetched v"
proof -
  obtain tm where tm: "timers v = [tm]" "due tm = t0 + 300"
    using assms(1) by (cases "timers v") (auto simp: armed_def)
  show ?thesis using assms tm by (simp add: advance_def)
qed

lemma advance_due:
  assumes "armed t0 v" "t0 + 300 \<le> T"
  shows "fetched (advance T v) = fetched v @ [query (table v)] \<and> timers (advance T v) = []"
proof -
  obtain tm where tm: "timers v = [tm]" "due tm = t0 + 300" "snapshot tm = query (table v)"
    using assms(1) by (cases "timers v") (auto simp: armed_def)
  show ?thesis using assms tm by (simp add: advance_def)
qed

lemma advance_idle:
  "timers v = [] \<Longrightarrow> fetched (advance T v) = fetched v \<and> timers (advance T v) = []"
  by (simp add: advance_def)

lemma step_armed:
  assumes "armed t0 v" "t0 \<le> t" "t < t0 + 300" "mutates (table v) e"
  shows "armed t (dispatch e (advance t v)) \<and> fetched (dispatch e (advance t v)) = fetched v
         \<and> table (dispatch e (advance t v)) = handle e (table v)"
proof -
  note adv = advance_early [OF assms(1,2,3)]
  have "single_timer (advance t v)"
    using assms(1) by (simp add: armed_single_timer single_timer_advance)
  moreover have "mounted (advance t v)" using adv by simp
  moreover have "mutates (table (advance t v)) e" using adv assms(4) by simp
  ultimately show ?thesis
    using dispatch_mutation [of "advance t v" e] adv by simp
qed

lemma burst_armed:
  "armed t0 v \<Longrightarrow> burst t0 v es \<Longrightarrow>
     armed (last_time t0 es) (run v es) \<and> fetched (run v es) = fetched v
     \<and> table (run v es) = run_events (table v) (map snd es)"
proof (induction es arbitrary: t0 v)
  case Nil
  then show ?case by (simp add: last_time_def run_events_def)
next
  case (Cons te es)
  obtain t e where te: "te = (t, e)" by (cases te)
  from Cons.prems te have b: "t0 \<le> t" "t < t0 + 300" "mutates (table v) e"
    "burst t (dispatch e (advance t v)) es" by simp_all
  note st = step_armed [OF Cons.prems(1) b(1,2,3)]
  from Cons.IH [OF _ b(4)] st
  have "armed (last_time t es) (run (dispatch e (advance t v)) es)
        \<and> fetched (run (dispatch e (advance t v)) es) = fetched v
        \<and> table (run (dispatch e (advance t v)) es) = run_events (handle e (table v)) (map snd es)"
    by simp
  then show ?case by (simp add: te last_time_def run_events_def)
qed

lemma run_unmounted:
  "\<not> mounted v \<Longrightarrow> timers v = [] \<Longrightarrow>
     timers (run v es) = [] \<and> fetched (run v es) = fetched v \<and> \<not> mounted (run v es)"
proof (induction es arbitrary: v)
  case Nil
  then show ?case by simp
next
  case (Cons te es)
  obtain t e where te: "te = (t, e)" by (cases te)
  have "\<not> mounted (dispatch e (advance t v))" "timers (dispatch e (advance t v)) = []"
    "fetched (dispatch e (advance t v)) = fetched v"
    using Cons.prems by (simp_all add: dispatch_def advance_def)
  with Cons.IH [of "dispatch e (advance t v)"] show ?case by (simp add: te)
qed

lemma unmount_cancels:
  assumes "single_timer v"
  shows "timers (unmount v) = [] \<and> fetched (advance T (run (unmount v) es)) = fetched v"
proof -
  have t: "timers (unmount v) = []" using assms by (simp add: unmount_def timers_run_cleanup)
  have m: "\<not> mounted (unmount v)" by (simp add: unmount_def)
  have f: "fetched (unmount v) = fetched v"
    by (simp add: unmount_def run_cleanup_def split: option.splits)
  from run_unmounted [OF m t, of es] f t show ?thesis by (simp add: advance_idle)
qed

text \<open>
  Claim C2. Let a mounted DataTable with at most one pending timer (every state reached
  from mounting is one, by \<open>reachable_single_timer\<close>) receive a Query
  mutation \<open>e\<close> at time \<open>t\<close>, followed by the mutations \<open>es\<close>, each less than 300 time
  units after its predecessor. Then no fetch is invoked during the burst or before 300
  time units have passed since its last mutation; once they have passed, exactly one
  fetch has been invoked, with the query the last mutation produced, and no further
  fetch follows however far the clock moves. If the component is unmounted after the
  burst, the pending timer is gone and no fetch is invoked afterwards, whatever happens
  and however far the clock moves.
\<close>

theorem debounce_burst:
  assumes "single_timer v" and "mounted v" and "clock v \<le> t" and "mutates (table v) e"
    and "burst t (dispatch e (advance t v)) es"
  shows "fetched (run v ((t, e) # es)) = fetched (advance t v)
    \<and> (\<forall>T. T < last_time t es + 300 \<longrightarrow>
          fetched (advance T (run v ((t, e) # es))) = fetched (advance t v))
    \<and> (\<forall>T T'. last_time t es + 300 \<le> T \<longrightarrow>
          fetched (advance T (run v ((t, e) # es)))
            = fetched (advance t v) @ [query (run_events (table v) (e # map snd es))]
          \<and> fetched (advance T' (advance T (run v ((t, e) # es))))
            = fetched (advance T (run v ((t, e) # es))))
    \<and> timers (unmount (run v ((t, e) # es))) = []
    \<and> (\<forall>T rest. fetched (advance T (run (unmount (run v ((t, e) # es))) rest))
          = fetched (advance t v))"
proof -
  let ?v1 = "dispatch e (advance t v)"
  let ?v' = "run v ((t, e) # es)"
  have a: "single_timer (advance t v)" "mounted (advance t v)" "mutates (table (advance t v)) e"
    "clock (advance t v) = t" "table (advance t v) = table v"
    using assms by (simp_all add: single_timer_advance) (simp_all add: advance_def max_def)
  from dispatch_mutation [OF a(1,2,3)] a(4,5)
  have v1: "armed t ?v1" "fetched ?v1 = fetched (advance t v)" "table ?v1 = handle e (table v)"
    by simp_all
  from burst_armed [OF v1(1) assms(5)] v1(2,3)
  have v': "armed (last_time t es) ?v'" "fetched ?v' = fetched (advance t v)"
    "table ?v' = run_events (table v) (e # map snd es)"
    by (simp_all add: run_events_def)
  have early: "\<forall>T. T < last_time t es + 300 \<longrightarrow> fetched (advance T ?v') = fetched (advance t v)"
    using advance_before_due [OF v'(1)] v'(2) by simp
  have late: "\<forall>T T'. last_time t es + 300 \<le> T \<longrightarrow>
      fetched (advance T ?v') = fetched (advance t v) @ [query (run_events (table v) (e # map snd es))]
      \<and> fetched (advance T' (advance T ?v')) = fetched (advance T ?v')"
    using advance_due [OF v'(1)] v'(2,3) by (simp add: advance_idle)
  have un: "timers (unmount ?v') = []
      \<and> (\<forall>T rest. fetched (advance T (run (unmount ?v') rest)) = fetched (advance t v))"
    using unmount_cancels [OF armed_single_timer [OF v'(1)]] v'(2) by simp
  from v'(2) early late un show ?thesis by blast
qed

lemmas debounce_defs = mount_def query_effect_def run_cleanup_def dispatch_def advance_def
  unmount_def single_timer_def mutates_def last_time_def run_events_def initial_data_table_def
  initial_query_def

theorem debounce_burst_witness:
  "single_timer (mount 0) \<and> mounted (mount 0) \<and> clock (mount 0) \<le> 100
   \<and> mutates (table (mount 0)) (HandleSearch ''a'')
   \<and> burst 100 (dispatch (HandleSearch ''a'') (advance 100 (mount 0)))
        [(250, HandleSearch ''ab''), (500, HandlePageChange 3)]
   \<and> fetched (advance 799 (run (mount 0)
        [(100, HandleSearch ''a''), (250, HandleSearch ''ab''), (500, HandlePageChange 3)])) = []
   \<and> fetched (advance 800 (run (mount 0)
        [(100, HandleSearch ''a''), (250, HandleSearch ''ab''), (500, HandlePageChange 3)]))
      = [\<lparr>page = 3, limit = 10, sort_by = '''', sort_order = ''asc'', search = ''ab'',
          filters = []\<rparr>]
   \<and> fetched (advance 5000 (run (unmount (run (mount 0)
        [(100, HandleSearch ''a''), (250, HandleSearch ''ab''), (500, HandlePageChange 3)]))
        [(900, HandleSearch ''abc'')])) = []"
proof -
  have h1: "single_timer (mount 0)" by (rule single_timer_mount)
  have h2: "mounted (mount 0)" by (simp add: mount_def query_effect_def)
  have h3: "clock (mount 0) \<le> 100" by (simp add: mount_def query_effect_def)
  have h4: "mutates (table (mount 0)) (HandleSearch ''a'')" by (simp add: mutates_cases)
  have h5: "burst 100 (dispatch (HandleSearch ''a'') (advance 100 (mount 0)))
        [(250, HandleSearch ''ab''), (500, HandlePageChange 3)]"
    by (simp add: mutates_cases)
  have base: "fetched (advance 100 (mount 0)) = []"
    by (simp add: mount_def query_effect_def advance_def)
  have final: "query (run_events (table (mount 0))
        (HandleSearch ''a'' # map snd [(250, HandleSearch ''ab''), (500, HandlePageChange 3)]))
      = \<lparr>page = 3, limit = 10, sort_by = '''', sort_order = ''asc'', search = ''ab'',
          filters = []\<rparr>"
    by (simp add: debounce_defs handler_defs)
  have lt: "last_time 100 [(250, HandleSearch ''ab''), (500, HandlePageChange 3)] = 500"
    by (simp add: last_time_def)
  note main = debounce_burst [OF h1 h2 h3 h4 h5, unfolded lt base final]
  from main have early: "fetched (advance 799 (run (mount 0)
        [(100, HandleSearch ''a''), (250, HandleSearch ''ab''), (500, HandlePageChange 3)])) = []"
    by simp
  from main have late: "fetched (advance 800 (run (mount 0)
        [(100, HandleSearch ''a''), (250, HandleSearch ''ab''), (500, HandlePageChange 3)]))
      = [\<lparr>page = 3, limit = 10, sort_by = '''', sort_order = ''asc'', search = ''ab'',
          filters = []\<rparr>]"
    by simp
  from main have gone: "fetched (advance 5000 (run (unmount (run (mount 0)
        [(100, HandleSearch ''a''), (250, HandleSearch ''ab''), (500, HandlePageChange 3)]))
        [(900, HandleSearch ''abc'')])) = []"
    by blast
  from h1 h2 h3 h4 h5 early late gone show ?thesis by blast
qed

section \<open>Properties of the gateway and the session\<close>

lemma api_call_wire:
  "wire (snd (api_call path outcome a)) = wire a @ [(path, request_interceptor a default_headers)]"
  by (cases outcome)
     (simp_all add: api_call_def Let_def response_error_interceptor_def split: option.splits)

lemma api_call_failure:
  "fst (api_call path (Inl err) a) = Inl err
   \<and> localStorage (snd (api_call path (Inl err) a)) =
       (if unauthorized err then (localStorage a)(''access_token'' := None, ''user'' := None)
        else localStorage a)
   \<and> href (snd (api_call path (Inl err) a)) = (if unauthorized err then ''/login'' else href a)"
  by (simp add: api_call_def Let_def response_error_interceptor_def unauthorized_def
      split: option.splits)

lemma api_call_success:
  "api_call path (Inr r) a =
     (Inr r, a\<lparr>wire := wire a @ [(path, request_interceptor a default_headers)]\<rparr>)"
  by (simp add: api_call_def Let_def)

lemma api_call_signed_out:
  "localStorage a ''access_token'' = None \<Longrightarrow>
     localStorage (snd (api_call path outcome a)) ''access_token'' = None"
  by (cases outcome)
     (simp_all add: api_call_def Let_def response_error_interceptor_def split: option.splits)

lemma login_failure:
  "fst (login js (Inl err) a) = Inl err
   \<and> localStorage (snd (login js (Inl err) a)) =
       (if unauthorized err then (localStorage a)(''access_token'' := None, ''user'' := None)
        else localStorage a)
   \<and> href (snd (login js (Inl err) a)) = (if unauthorized err then ''/login'' else href a)
   \<and> user (snd (login js (Inl err) a)) = user a
   \<and> toasts (snd (login js (Inl err) a)) = toasts a @ [Error (error_message err ''Login failed'')]
   \<and> isLoading (snd (login js (Inl err) a)) = False"
  by (simp add: login_def api_call_def Let_def response_error_interceptor_def unauthorized_def
      split: option.splits)

lemma register_failure:
  "fst (register js (Inl err) a) = Inl err
   \<and> localStorage (snd (register js (Inl err) a)) =
       (if unauthorized err then (localStorage a)(''access_token'' := None, ''user'' := None)
        else localStorage a)
   \<and> href (snd (register js (Inl err) a)) = (if unauthorized err then ''/login'' else href a)
   \<and> user (snd (register js (Inl err) a)) = user a
   \<and> toasts (snd (register js (Inl err) a)) =
       toasts a @ [Error (error_message err ''Registration failed'')]
   \<and> isLoading (snd (register js (Inl err) a)) = False"
  by (simp add: register_def api_call_def Let_def response_error_interceptor_def unauthorized_def
      split: option.splits)

lemma login_wire:
  "wire (snd (login js outcome a)) =
     wire a @ [(''/auth/login'', request_interceptor a default_headers)]"
  by (cases outcome)
     (simp_all add: login_def api_call_def Let_def response_error_interceptor_def
        request_interceptor_def split: option.splits)

lemma register_wire:
  "wire (snd (register js outcome a)) =
     wire a @ [(''/auth/register'', request_interceptor a default_headers)]"
  by (cases outcome)
     (simp_all add: register_def api_call_def Let_def response_error_interceptor_def
        request_interceptor_def split: option.splits)

lemma login_success:
  "localStorage (snd (login js (Inr resp) a)) =
     (localStorage a)(''access_token'' \<mapsto> access_token resp, ''user'' \<mapsto> js (resp_user resp))
   \<and> user (snd (login js (Inr resp) a)) = Some (resp_user resp)"
  by (simp add: login_def api_call_success)

lemma initAuth_signed_out:
  "localStorage a ''access_token'' = None \<Longrightarrow>
     localStorage (initAuth p outcome a) ''access_token'' = None
     \<and> wire (initAuth p outcome a) = wire a"
  by (simp add: initAuth_def)

lemma no_token_no_header:
  "localStorage a ''access_token'' = None \<Longrightarrow>
     request_interceptor a default_headers ''Authorization'' = None"
  by (simp add: request_interceptor_def default_headers_def)

lemma session_step_401:
  assumes "failure_of ev = Some err" "unauthorized err"
  shows "localStorage (session_step js ev a) ''access_token'' = None
       \<and> localStorage (session_step js ev a) ''user'' = None
       \<and> href (session_step js ev a) = ''/login''"
  using assms
  by (cases ev rule: failure_of.cases)
     (simp_all add: api_call_failure login_failure register_failure)

lemma session_step_signed_out:
  assumes "localStorage a ''access_token'' = None" "\<not> signs_in ev"
  shows "localStorage (session_step js ev a) ''access_token'' = None
       \<and> (\<exists>ws. wire (session_step js ev a) = wire a @ ws \<and> no_bearer ws)"
  using assms
  by (cases ev rule: signs_in.cases)
    (auto simp: api_call_signed_out login_failure register_failure initAuth_signed_out
        api_call_wire login_wire register_wire no_token_no_header no_bearer_def logout_def)

lemma no_bearer_append: "no_bearer (xs @ ys) = (no_bearer xs \<and> no_bearer ys)"
  by (simp add: no_bearer_def)

lemma session_run_Cons: "session_run js (e # es) a = session_run js es (session_step js e a)"
  by (simp add: session_run_def)

lemma session_run_signed_out:
  "localStorage a ''access_token'' = None \<Longrightarrow> list_all (\<lambda>e. \<not> signs_in e) es \<Longrightarrow>
     localStorage (session_run js es a) ''access_token'' = None
     \<and> (\<exists>ws. wire (session_run js es a) = wire a @ ws \<and> no_bearer ws)"
proof (induction es arbitrary: a)
  case Nil
  then show ?case by (simp add: session_run_def no_bearer_def)
next
  case (Cons e es)
  let ?a1 = "session_step js e a"
  from Cons.prems session_step_signed_out [of a e js]
  obtain ws where a1: "localStorage ?a1 ''access_token'' = None" "wire ?a1 = wire a @ ws"
    "no_bearer ws" by auto
  from Cons.IH [OF a1(1)] Cons.prems(2)
  obtain ws' where ih: "localStorage (session_run js es ?a1) ''access_token'' = None"
    "wire (session_run js es ?a1) = wire ?a1 @ ws'" "no_bearer ws'" by auto
  have "wire (session_run js (e # es) a) = wire a @ (ws @ ws')"
    using a1(2) ih(2) by (simp add: session_run_Cons)
  moreover have "no_bearer (ws @ ws')" using a1(3) ih(3) by (simp add: no_bearer_append)
  ultimately show ?case using ih(1) by (auto simp: session_run_Cons)
qed

lemma after_401_no_bearer:
  assumes "failure_of ev = Some err" "unauthorized err" "list_all (\<lambda>e. \<not> signs_in e) es"
  shows "no_bearer (drop (length (wire (session_step js ev a)))
                      (wire (session_run js es (session_step js ev a))))"
proof -
  have "localStorage (session_step js ev a) ''access_token'' = None"
    using session_step_401 [OF assms(1,2)] by simp
  with assms(3) session_run_signed_out [of "session_step js ev a" es js]
  obtain ws where "wire (session_run js es (session_step js ev a))
      = wire (session_step js ev a) @ ws" "no_bearer ws" by auto
  then show ?thesis by simp
qed

text \<open>
  Claim C6. Whatever gateway call it answers (any path; login and registration as well,
  after their own error handling), a rejection with status 401 removes both session keys from \<open>localStorage\<close>
  and sets the location to \<open>/login\<close>. From then on, as long as no login or registration
  succeeds, no request carries an \<open>Authorization\<close> header. While a (non-empty) token is
  stored, a request carries \<open>Authorization: Bearer\<close> followed by the token; a successful
  login stores the token of the response.
\<close>

theorem unauthorized_clears_session:
  "(unauthorized err \<longrightarrow>
      fst (api_call path (Inl err) a) = Inl err
      \<and> localStorage (snd (api_call path (Inl err) a)) ''access_token'' = None
      \<and> localStorage (snd (api_call path (Inl err) a)) ''user'' = None
      \<and> href (snd (api_call path (Inl err) a)) = ''/login'')
   \<and> (failure_of ev = Some err \<and> unauthorized err \<longrightarrow>
      localStorage (session_step js ev a) ''access_token'' = None
      \<and> localStorage (session_step js ev a) ''user'' = None
      \<and> href (session_step js ev a) = ''/login''
      \<and> (\<forall>es. list_all (\<lambda>e. \<not> signs_in e) es \<longrightarrow>
            no_bearer (drop (length (wire (session_step js ev a)))
                        (wire (session_run js es (session_step js ev a))))))
   \<and> (localStorage a ''access_token'' = Some tok \<and> tok \<noteq> '''' \<longrightarrow>
        wire (snd (api_call path outcome a)) =
          wire a @ [(path, default_headers(''Authorization'' \<mapsto> ''Bearer '' @ tok))])
   \<and> localStorage (session_step js (Login (Inr resp)) a) ''access_token''
        = Some (access_token resp)"
proof -
  have zero: "unauthorized err \<longrightarrow>
      fst (api_call path (Inl err) a) = Inl err
      \<and> localStorage (snd (api_call path (Inl err) a)) ''access_token'' = None
      \<and> localStorage (snd (api_call path (Inl err) a)) ''user'' = None
      \<and> href (snd (api_call path (Inl err) a)) = ''/login''"
    by (simp add: api_call_failure)
  have one: "failure_of ev = Some err \<and> unauthorized err \<longrightarrow>
      localStorage (session_step js ev a) ''access_token'' = None
      \<and> localStorage (session_step js ev a) ''user'' = None
      \<and> href (session_step js ev a) = ''/login''
      \<and> (\<forall>es. list_all (\<lambda>e. \<not> signs_in e) es \<longrightarrow>
            no_bearer (drop (length (wire (session_step js ev a)))
                        (wire (session_run js es (session_step js ev a)))))"
    using session_step_401 [of ev err js a] after_401_no_bearer [of ev err _ js a] by blast
  have two: "localStorage a ''access_token'' = Some tok \<and> tok \<noteq> '''' \<longrightarrow>
        wire (snd (api_call path outcome a)) =
          wire a @ [(path, default_headers(''Authorization'' \<mapsto> ''Bearer '' @ tok))]"
    by (simp add: api_call_wire request_interceptor_def)
  have three: "localStorage (session_step js (Login (Inr resp)) a) ''access_token''
        = Some (access_token resp)"
    by (simp add: login_success)
  from zero one two three show ?thesis by blast
qed

theorem unauthorized_clears_session_witness:
  "failure_of (Call ''/datasets'' (Inl \<lparr>response = Some \<lparr>status = 401, detail = None\<rparr>\<rparr>))
      = Some \<lparr>response = Some \<lparr>status = 401, detail = None\<rparr>\<rparr>
   \<and> unauthorized \<lparr>response = Some \<lparr>status = 401, detail = None\<rparr>\<rparr>
   \<and> list_all (\<lambda>e. \<not> signs_in e)
        [Call ''/datasets'' (Inr ()), Login (Inl \<lparr>response = None\<rparr>), PageLoad (Inr ())]
   \<and> localStorage
        (session_step \<lparr>stringify = full_name, parse = Map.empty\<rparr>
          (Call ''/datasets'' (Inl \<lparr>response = Some \<lparr>status = 401, detail = None\<rparr>\<rparr>))
          \<lparr>localStorage = [''access_token'' \<mapsto> ''tok'', ''user'' \<mapsto> ''u''], href = ''/'',
           wire = [], user = None, isLoading = False, toasts = []\<rparr>) ''access_token'' = None
   \<and> wire
        (session_run \<lparr>stringify = full_name, parse = Map.empty\<rparr>
          [Call ''/datasets'' (Inr ()), Login (Inl \<lparr>response = None\<rparr>), PageLoad (Inr ())]
          (session_step \<lparr>stringify = full_name, parse = Map.empty\<rparr>
            (Call ''/datasets'' (Inl \<lparr>response = Some \<lparr>status = 401, detail = None\<rparr>\<rparr>))
            \<lparr>localStorage = [''access_token'' \<mapsto> ''tok'', ''user'' \<mapsto> ''u''], href = ''/'',
             wire = [], user = None, isLoading = False, toasts = []\<rparr>))
      = [(''/datasets'', default_headers(''Authorization'' \<mapsto> ''Bearer tok'')),
         (''/datasets'', default_headers), (''/auth/login'', default_headers)]
   \<and> no_bearer [(''/datasets'', default_headers), (''/auth/login'', default_headers)]"
proof -
  let ?js = "\<lparr>stringify = full_name, parse = Map.empty\<rparr>"
  let ?err = "\<lparr>response = Some \<lparr>status = 401, detail = None\<rparr>\<rparr>"
  let ?a = "\<lparr>localStorage = [''access_token'' \<mapsto> ''tok'', ''user'' \<mapsto> ''u''], href = ''/'',
           wire = [], user = None, isLoading = False, toasts = []\<rparr>"
  let ?es = "[Call ''/datasets'' (Inr ()), Login (Inl \<lparr>response = None\<rparr>), PageLoad (Inr ())]"
  have h1: "failure_of (Call ''/datasets'' (Inl ?err)) = Some ?err" by simp
  have h2: "unauthorized ?err" by (simp add: unauthorized_def)
  have h3: "list_all (\<lambda>e. \<not> signs_in e) ?es" by simp
  have w: "wire (session_run ?js ?es (session_step ?js (Call ''/datasets'' (Inl ?err)) ?a))
      = [(''/datasets'', default_headers(''Authorization'' \<mapsto> ''Bearer tok'')),
         (''/datasets'', default_headers), (''/auth/login'', default_headers)]"
    by (simp add: session_run_def api_call_def Let_def response_error_interceptor_def
        request_interceptor_def login_def initAuth_def)
  have l: "length (wire (session_step ?js (Call ''/datasets'' (Inl ?err)) ?a)) = 1"
    by (simp add: api_call_wire)
  from h1 h2 h3
    unauthorized_clears_session [of ?err "''/datasets''" ?a "Call ''/datasets'' (Inl ?err)" ?js
      "''tok''" "Inr ()" "\<lparr>access_token = ''t2'', resp_user =
        \<lparr>full_name = ''n'', email = ''e'', role = ''member''\<rparr>\<rparr>"]
  have "localStorage (session_step ?js (Call ''/datasets'' (Inl ?err)) ?a) ''access_token'' = None
    \<and> no_bearer (drop (length (wire (session_step ?js (Call ''/datasets'' (Inl ?err)) ?a)))
        (wire (session_run ?js ?es (session_step ?js (Call ''/datasets'' (Inl ?err)) ?a))))"
    by blast
  then have "localStorage (session_step ?js (Call ''/datasets'' (Inl ?err)) ?a) ''access_token'' = None
    \<and> no_bearer [(''/datasets'', default_headers), (''/auth/login'', default_headers)]"
    unfolding w l by simp
  with h1 h2 h3 w show ?thesis by blast
qed

text \<open>
  Claim C9, as amended. When a login or a registration is rejected, the error is
  rethrown, an error toast is shown, the in-memory user is left as it was, and nothing
  is written to the stored session. The stored access token and user are untouched
  unless the rejection has status 401; in that case the gateway removes both keys and
  sets the location to \<open>/login\<close>, as for every other call.
\<close>

theorem failed_login_keeps_session:
  "fst (login js (Inl err) a) = Inl err
   \<and> fst (register js (Inl err) a) = Inl err
   \<and> user (snd (login js (Inl err) a)) = user a
   \<and> user (snd (register js (Inl err) a)) = user a
   \<and> toasts (snd (login js (Inl err) a)) = toasts a @ [Error (error_message err ''Login failed'')]
   \<and> toasts (snd (register js (Inl err) a)) =
       toasts a @ [Error (error_message err ''Registration failed'')]
   \<and> (\<not> unauthorized err \<longrightarrow>
        localStorage (snd (login js (Inl err) a)) = localStorage a
        \<and> localStorage (snd (register js (Inl err) a)) = localStorage a)
   \<and> (unauthorized err \<longrightarrow>
        localStorage (snd (login js (Inl err) a))
          = (localStorage a)(''access_token'' := None, ''user'' := None)
        \<and> localStorage (snd (register js (Inl err) a))
          = (localStorage a)(''access_token'' := None, ''user'' := None)
        \<and> href (snd (login js (Inl err) a)) = ''/login''
        \<and> href (snd (register js (Inl err) a)) = ''/login'')"
  by (simp add: login_failure register_failure)

theorem failed_login_keeps_session_witness:
  "\<not> unauthorized \<lparr>response = Some \<lparr>status = 400, detail = Some ''Email already registered''\<rparr>\<rparr>
   \<and> localStorage (snd (register full_name
        (Inl \<lparr>response = Some \<lparr>status = 400, detail = Some ''Email already registered''\<rparr>\<rparr>)
        \<lparr>localStorage = [''access_token'' \<mapsto> ''tok'', ''user'' \<mapsto> ''u''], href = ''/register'',
         wire = [], user = None, isLoading = False, toasts = []\<rparr>)) ''access_token'' = Some ''tok''
   \<and> toasts (snd (register full_name
        (Inl \<lparr>response = Some \<lparr>status = 400, detail = Some ''Email already registered''\<rparr>\<rparr>)
        \<lparr>localStorage = [''access_token'' \<mapsto> ''tok'', ''user'' \<mapsto> ''u''], href = ''/register'',
         wire = [], user = None, isLoading = False, toasts = []\<rparr>))
      = [Error ''Email already registered'']
   \<and> unauthorized \<lparr>response = Some \<lparr>status = 401, detail = None\<rparr>\<rparr>
   \<and> href (snd (login full_name (Inl \<lparr>response = Some \<lparr>status = 401, detail = None\<rparr>\<rparr>)
        \<lparr>localStorage = Map.empty, href = ''/login'', wire = [], user = None, isLoading = False,
         toasts = []\<rparr>)) = ''/login''"
proof -
  have h1: "\<not> unauthorized
      \<lparr>response = Some \<lparr>status = 400, detail = Some ''Email already registered''\<rparr>\<rparr>"
    by (simp add: unauthorized_def)
  have h2: "unauthorized \<lparr>response = Some \<lparr>status = 401, detail = None\<rparr>\<rparr>"
    by (simp add: unauthorized_def)
  from h1
    failed_login_keeps_session [of full_name
      "\<lparr>response = Some \<lparr>status = 400, detail = Some ''Email already registered''\<rparr>\<rparr>"
      "\<lparr>localStorage = [''access_token'' \<mapsto> ''tok'', ''user'' \<mapsto> ''u''], href = ''/register'',
        wire = [], user = None, isLoading = False, toasts = []\<rparr>"]
  have a: "localStorage (snd (register full_name
        (Inl \<lparr>response = Some \<lparr>status = 400, detail = Some ''Email already registered''\<rparr>\<rparr>)
        \<lparr>localStorage = [''access_token'' \<mapsto> ''tok'', ''user'' \<mapsto> ''u''], href = ''/register'',
         wire = [], user = None, isLoading = False, toasts = []\<rparr>)) ''access_token'' = Some ''tok''
     \<and> toasts (snd (register full_name
        (Inl \<lparr>response = Some \<lparr>status = 400, detail = Some ''Email already registered''\<rparr>\<rparr>)
        \<lparr>localStorage = [''access_token'' \<mapsto> ''tok'', ''user'' \<mapsto> ''u''], href = ''/register'',
         wire = [], user = None, isLoading = False, toasts = []\<rparr>))
      = [Error ''Email already registered'']"
    by (simp add: error_message_def)
  from h2
    failed_login_keeps_session [of full_name
      "\<lparr>response = Some \<lparr>status = 401, detail = None\<rparr>\<rparr>"
      "\<lparr>localStorage = Map.empty, href = ''/login'', wire = [], user = None, isLoading = False,
        toasts = []\<rparr>"]
  have b: "href (snd (login full_name (Inl \<lparr>response = Some \<lparr>status = 401, detail = None\<rparr>\<rparr>)
        \<lparr>localStorage = Map.empty, href = ''/login'', wire = [], user = None, isLoading = False,
         toasts = []\<rparr>)) = ''/login''"
    by blast
  from h1 h2 a b show ?thesis by blast
qed

text \<open>
  The claim as it was stated has the stored session unchanged after every failed login.
  With a token and a user in \<open>localStorage\<close> and no user in memory (a second tab signed
  in meanwhile), a login rejected with status 401 goes through the response interceptor,
  and the stored token is gone.
\<close>

theorem failed_login_counterexample:
  "user \<lparr>localStorage = [''access_token'' \<mapsto> ''tok'', ''user'' \<mapsto> ''u''], href = ''/login'',
         wire = [], user = None, isLoading = False, toasts = []\<rparr> = None
   \<and> localStorage \<lparr>localStorage = [''access_token'' \<mapsto> ''tok'', ''user'' \<mapsto> ''u''],
         href = ''/login'', wire = [], user = None, isLoading = False, toasts = []\<rparr>
         ''access_token'' = Some ''tok''
   \<and> localStorage
     (snd (login full_name
        (Inl \<lparr>response = Some \<lparr>status = 401, detail = Some ''Incorrect email or password''\<rparr>\<rparr>)
        \<lparr>localStorage = [''access_token'' \<mapsto> ''tok'', ''user'' \<mapsto> ''u''], href = ''/login'',
         wire = [], user = None, isLoading = False, toasts = []\<rparr>)) ''access_token'' = None
   \<and> localStorage
     (snd (login full_name
        (Inl \<lparr>response = Some \<lparr>status = 401, detail = Some ''Incorrect email or password''\<rparr>\<rparr>)
        \<lparr>localStorage = [''access_token'' \<mapsto> ''tok'', ''user'' \<mapsto> ''u''], href = ''/login'',
         wire = [], user = None, isLoading = False, toasts = []\<rparr>)) ''user'' = None"
  by (simp add: login_def api_call_def Let_def response_error_interceptor_def)

section \<open>Properties of DatasetView\<close>

lemma view_run_snoc: "view_run (es @ [e]) v = view_step e (view_run es v)"
  by (simp add: view_run_def)

lemma data_view_step: "data (view_step e v) = last_resolved [e] (data v)"
proof (cases e)
  case (Issue q)
  then show ?thesis by (simp add: loadData_start_def)
next
  case (Settle n outcome)
  then show ?thesis by (cases outcome) (simp_all add: loadData_settle_def)
qed

lemma last_resolved_append: "last_resolved (es @ fs) r = last_resolved fs (last_resolved es r)"
  by (induction es r rule: last_resolved.induct) simp_all

lemma data_view_run: "data (view_run es v) = last_resolved es (data v)"
proof (induction es rule: rev_induct)
  case Nil
  then show ?case by (simp add: view_run_def)
next
  case (snoc e es)
  then show ?case by (simp add: view_run_snoc data_view_step last_resolved_append)
qed

text \<open>
  Claim C3, as amended. The rows and pagination on display are those of the fetch that
  resolved last: after any trace, \<open>data\<close> holds the result of the last successful
  settlement. For two fetches issued A then B, when B resolves before A the display
  ends with A's result, and when A resolves before B it ends with B's. The chart data
  of the ChartContainer follow the same rule.
\<close>

theorem last_resolved_wins:
  "data (view_run es v) = last_resolved es (data v)
   \<and> well_formed 0 [] [Issue qA, Issue qB, Settle 1 (Inr rB), Settle 0 (Inr rA)]
   \<and> data (view_run [Issue qA, Issue qB, Settle 1 (Inr rB), Settle 0 (Inr rA)] v) = Some rA
   \<and> data (view_run [Issue qA, Issue qB, Settle 0 (Inr rA), Settle 1 (Inr rB)] v) = Some rB
   \<and> chartData (chart_step (ChartSettle (Inr dA)) (chart_step (ChartSettle (Inr dB)) s)) = Some dA"
  by (simp add: data_view_run chart_commit_def generateChart_settle_def)

theorem last_resolved_wins_witness:
  "data (view_run
      [Issue initial_query, Issue (initial_query\<lparr>page := 2\<rparr>),
       Settle 0 (Inr \<lparr>rows = [[(''name'', ''Ann'')]],
                      pagination = \<lparr>current_page = 1, pages = 2, total = 2\<rparr>\<rparr>),
       Settle 1 (Inr \<lparr>rows = [[(''name'', ''Bob'')]],
                      pagination = \<lparr>current_page = 2, pages = 2, total = 2\<rparr>\<rparr>)]
      (initial_dataset_view (Some ''d1'')))
   = Some \<lparr>rows = [[(''name'', ''Bob'')]],
           pagination = \<lparr>current_page = 2, pages = 2, total = 2\<rparr>\<rparr>"
  using last_resolved_wins [of "[]" "initial_dataset_view (Some ''d1'')"
      initial_query "initial_query\<lparr>page := 2\<rparr>"
      "\<lparr>rows = [[(''name'', ''Bob'')]], pagination = \<lparr>current_page = 2, pages = 2, total = 2\<rparr>\<rparr>"
      "\<lparr>rows = [[(''name'', ''Ann'')]], pagination = \<lparr>current_page = 1, pages = 2, total = 2\<rparr>\<rparr>"]
  by blast

text \<open>
  The claim as it was stated has the display end with the result of the fetch issued
  last. Page 1 is requested, then page 2; page 2 resolves first and page 1 after it.
  Both requests went out in that order, and the display ends with page 1.
\<close>

theorem stale_response_counterexample:
  "well_formed 0 []
      [Issue initial_query, Issue (initial_query\<lparr>page := 2\<rparr>),
       Settle 1 (Inr \<lparr>rows = [[(''name'', ''Bob'')]],
                      pagination = \<lparr>current_page = 2, pages = 2, total = 2\<rparr>\<rparr>),
       Settle 0 (Inr \<lparr>rows = [[(''name'', ''Ann'')]],
                      pagination = \<lparr>current_page = 1, pages = 2, total = 2\<rparr>\<rparr>)]
   \<and> sent (view_run
      [Issue initial_query, Issue (initial_query\<lparr>page := 2\<rparr>),
       Settle 1 (Inr \<lparr>rows = [[(''name'', ''Bob'')]],
                      pagination = \<lparr>current_page = 2, pages = 2, total = 2\<rparr>\<rparr>),
       Settle 0 (Inr \<lparr>rows = [[(''name'', ''Ann'')]],
                      pagination = \<lparr>current_page = 1, pages = 2, total = 2\<rparr>\<rparr>)]
      (initial_dataset_view (Some ''d1'')))
     = [GetData ''d1'' initial_query, GetData ''d1'' (initial_query\<lparr>page := 2\<rparr>)]
   \<and> data (view_run
      [Issue initial_query, Issue (initial_query\<lparr>page := 2\<rparr>),
       Settle 1 (Inr \<lparr>rows = [[(''name'', ''Bob'')]],
                      pagination = \<lparr>current_page = 2, pages = 2, total = 2\<rparr>\<rparr>),
       Settle 0 (Inr \<lparr>rows = [[(''name'', ''Ann'')]],
                      pagination = \<lparr>current_page = 1, pages = 2, total = 2\<rparr>\<rparr>)]
      (initial_dataset_view (Some ''d1'')))
     = Some \<lparr>rows = [[(''name'', ''Ann'')]],
             pagination = \<lparr>current_page = 1, pages = 2, total = 2\<rparr>\<rparr>
   \<and> data (view_run
      [Issue initial_query, Issue (initial_query\<lparr>page := 2\<rparr>),
       Settle 1 (Inr \<lparr>rows = [[(''name'', ''Bob'')]],
                      pagination = \<lparr>current_page = 2, pages = 2, total = 2\<rparr>\<rparr>),
       Settle 0 (Inr \<lparr>rows = [[(''name'', ''Ann'')]],
                      pagination = \<lparr>current_page = 1, pages = 2, total = 2\<rparr>\<rparr>)]
      (initial_dataset_view (Some ''d1'')))
     \<noteq> Some \<lparr>rows = [[(''name'', ''Bob'')]],
             pagination = \<lparr>current_page = 2, pages = 2, total = 2\<rparr>\<rparr>"
  by (simp add: view_run_def loadData_start_def loadData_settle_def initial_dataset_view_def
      falsy_id_def id_of_def)

lemma sent_loadDataset_settle: "sent (loadDataset_settle outcome v) = sent v"
  by (simp add: loadDataset_settle_def split: sum.splits option.splits)

lemma sent_loadStats_settle: "sent (loadStats_settle outcome v) = sent v"
  by (simp add: loadStats_settle_def split: sum.splits)

lemma route_id_loadDataset_settle: "route_id (loadDataset_settle outcome v) = route_id v"
  by (simp add: loadDataset_settle_def split: sum.splits option.splits)

lemma route_id_loadStats_settle: "route_id (loadStats_settle outcome v) = route_id v"
  by (simp add: loadStats_settle_def split: sum.splits)

lemma mount_fires_default:
  "now + 300 \<le> T \<Longrightarrow> fetched (advance T (mount now)) = [initial_query]"
  by (simp add: advance_def mount_def query_effect_def initial_data_table_def)

text \<open>
  Claim C10. A DataTable is created with the query
  \<open>{page: 1, limit: 10, sort_by: "", sort_order: "asc", search: "", filters: []}\<close>. The
  first fetch the DatasetView issues for a dataset, after the list of datasets and the
  statistics, carries this query, whatever the two earlier calls returned; and the first
  fetch a mounted DataTable asks for, 300 time units after mounting, carries it too.
\<close>

theorem default_query_on_mount:
  "query initial_data_table =
     \<lparr>page = 1, limit = 10, sort_by = '''', sort_order = ''asc'', search = '''', filters = []\<rparr>
   \<and> query (table (mount now)) =
     \<lparr>page = 1, limit = 10, sort_by = '''', sort_order = ''asc'', search = '''', filters = []\<rparr>
   \<and> (\<forall>T. now + 300 \<le> T \<longrightarrow>
        fetched (advance T (mount now)) =
          [\<lparr>page = 1, limit = 10, sort_by = '''', sort_order = ''asc'', search = '''', filters = []\<rparr>])
   \<and> (i \<noteq> '''' \<longrightarrow>
        sent (view_mount_effect out_all out_stats (initial_dataset_view (Some i))) =
          [GetAll, GetStats i,
           GetData i \<lparr>page = 1, limit = 10, sort_by = '''', sort_order = ''asc'', search = '''',
                      filters = []\<rparr>])"
  using mount_fires_default [of now]
  by (simp add: initial_data_table_def initial_query_def mount_def query_effect_def
      view_mount_effect_def falsy_id_def id_of_def loadAllData_def Let_def loadData_start_def
      loadDataset_start_def loadStats_start_def
      sent_loadDataset_settle sent_loadStats_settle route_id_loadDataset_settle
      route_id_loadStats_settle initial_dataset_view_def)

theorem default_query_on_mount_witness:
  "''d1'' \<noteq> '''' \<and> (0::nat) + 300 \<le> 300
   \<and> data_queries (sent (view_mount_effect (Inl \<lparr>response = None\<rparr>) (Inr ''stats'')
        (initial_dataset_view (Some ''d1''))))
      = [\<lparr>page = 1, limit = 10, sort_by = '''', sort_order = ''asc'', search = '''', filters = []\<rparr>]
   \<and> fetched (advance 300 (mount 0))
      = [\<lparr>page = 1, limit = 10, sort_by = '''', sort_order = ''asc'', search = '''', filters = []\<rparr>]"
proof -
  have h: "''d1'' \<noteq> '''' \<and> (0::nat) + 300 \<le> 300" by simp
  from h default_query_on_mount [of 0 "''d1''" "Inl \<lparr>response = None\<rparr>" "Inr ''stats''"]
  have "sent (view_mount_effect (Inl \<lparr>response = None\<rparr>) (Inr ''stats'')
        (initial_dataset_view (Some ''d1'')))
      = [GetAll, GetStats ''d1'',
         GetData ''d1'' \<lparr>page = 1, limit = 10, sort_by = '''', sort_order = ''asc'',
                        search = '''', filters = []\<rparr>]
    \<and> fetched (advance 300 (mount 0))
      = [\<lparr>page = 1, limit = 10, sort_by = '''', sort_order = ''asc'', search = '''', filters = []\<rparr>]"
    by blast
  then show ?thesis using h by simp
qed

section \<open>Properties of the chart configuration\<close>

lemmas chart_defs = chart_commit_def chart_effect_def generateChart_start_def
  handleConfigChange_def setChartConfig_def

text \<open>
  Claim C7, as amended. \<open>handleConfigChange key v\<close> replaces the field \<open>key\<close> and
  leaves every other field of the configuration as it was. When the \<open>x_axis\<close> of the
  new configuration is not empty, exactly one \<open>generateChart\<close> call goes out at once,
  for the current dataset and with the new configuration; when it is empty, no call goes
  out. A change of the dataset identifier does the same with the unchanged
  configuration and the new identifier.
\<close>

theorem config_change_regenerates:
  "chartConfig (chart_step (HandleConfigChange key v) s) = (chartConfig s)(key \<mapsto> v)
   \<and> (\<forall>k. k \<noteq> key \<longrightarrow> chartConfig (chart_step (HandleConfigChange key v) s) k = chartConfig s k)
   \<and> chartConfig (chart_step (HandleConfigChange key v) s) key = Some v
   \<and> (truthy (((chartConfig s)(key \<mapsto> v)) ''x_axis'') \<longrightarrow>
        chart_calls (chart_step (HandleConfigChange key v) s) =
          chart_calls s @ [(datasetId s, (chartConfig s)(key \<mapsto> v))])
   \<and> (\<not> truthy (((chartConfig s)(key \<mapsto> v)) ''x_axis'') \<longrightarrow>
        chart_calls (chart_step (HandleConfigChange key v) s) = chart_calls s)
   \<and> (i \<noteq> datasetId s \<and> truthy (chartConfig s ''x_axis'') \<longrightarrow>
        chart_calls (chart_step (DatasetIdProp i) s) = chart_calls s @ [(i, chartConfig s)])
   \<and> (i \<noteq> datasetId s \<and> \<not> truthy (chartConfig s ''x_axis'') \<longrightarrow>
        chart_calls (chart_step (DatasetIdProp i) s) = chart_calls s)
   \<and> chartConfig (chart_step (DatasetIdProp i) s) = chartConfig s"
  by (simp add: chart_defs)

lemma chart_mount_example:
  "chartConfig (chart_mount ''d1'' [''name'', ''age''] [''age'']) =
     [''chart_type'' \<mapsto> ''bar'', ''x_axis'' \<mapsto> ''name'', ''y_axis'' \<mapsto> ''age'',
      ''group_by'' \<mapsto> '''', ''aggregate'' \<mapsto> ''count'']
   \<and> datasetId (chart_mount ''d1'' [''name'', ''age''] [''age'']) = ''d1''
   \<and> length (chart_calls (chart_mount ''d1'' [''name'', ''age''] [''age''])) = 1"
  by (simp add: chart_mount_def chart_effect_def initial_chartConfig_def truthy_def
      first_or_empty_def generateChart_start_def)

theorem config_change_regenerates_witness:
  "truthy (((chartConfig (chart_mount ''d1'' [''name'', ''age''] [''age'']))
      (''chart_type'' \<mapsto> ''line'')) ''x_axis'')
   \<and> ''d2'' \<noteq> datasetId (chart_mount ''d1'' [''name'', ''age''] [''age''])
   \<and> truthy (chartConfig (chart_mount ''d1'' [''name'', ''age''] [''age'']) ''x_axis'')
   \<and> length (chart_calls (chart_step (HandleConfigChange ''chart_type'' ''line'')
        (chart_mount ''d1'' [''name'', ''age''] [''age'']))) = 2
   \<and> chartConfig (chart_step (HandleConfigChange ''chart_type'' ''line'')
        (chart_mount ''d1'' [''name'', ''age''] [''age''])) ''chart_type'' = Some ''line''
   \<and> chartConfig (chart_step (HandleConfigChange ''chart_type'' ''line'')
        (chart_mount ''d1'' [''name'', ''age''] [''age''])) ''x_axis'' = Some ''name''
   \<and> length (chart_calls (chart_step (DatasetIdProp ''d2'')
        (chart_mount ''d1'' [''name'', ''age''] [''age'']))) = 2"
proof -
  let ?s = "chart_mount ''d1'' [''name'', ''age''] [''age'']"
  have h1: "truthy (((chartConfig ?s)(''chart_type'' \<mapsto> ''line'')) ''x_axis'')"
    by (simp add: chart_mount_example truthy_def)
  have h2: "''d2'' \<noteq> datasetId ?s" by (simp add: chart_mount_example)
  have h3: "truthy (chartConfig ?s ''x_axis'')" by (simp add: chart_mount_example truthy_def)
  have h4: "''x_axis'' \<noteq> ''chart_type''" by simp
  note main = config_change_regenerates [of "''chart_type''" "''line''" ?s "''d2''"]
  from main h1 have c1: "chart_calls (chart_step (HandleConfigChange ''chart_type'' ''line'') ?s)
      = chart_calls ?s @ [(datasetId ?s, (chartConfig ?s)(''chart_type'' \<mapsto> ''line''))]"
    by blast
  from main h2 h3 have c2: "chart_calls (chart_step (DatasetIdProp ''d2'') ?s)
      = chart_calls ?s @ [(''d2'', chartConfig ?s)]"
    by blast
  from main have c3: "chartConfig (chart_step (HandleConfigChange ''chart_type'' ''line'') ?s)
      ''chart_type'' = Some ''line''"
    by blast
  note others = main [THEN conjunct2, THEN conjunct1, rule_format]
  from others [OF h4]
  have "chartConfig (chart_step (HandleConfigChange ''chart_type'' ''line'') ?s)
      ''x_axis'' = chartConfig ?s ''x_axis''" .
  then have c4: "chartConfig (chart_step (HandleConfigChange ''chart_type'' ''line'') ?s)
      ''x_axis'' = Some ''name''"
    by (simp add: chart_mount_example)
  have l1: "length (chart_calls (chart_step (HandleConfigChange ''chart_type'' ''line'') ?s)) = 2"
    unfolding c1 by (simp add: chart_mount_example)
  have l2: "length (chart_calls (chart_step (DatasetIdProp ''d2'') ?s)) = 2"
    unfolding c2 by (simp add: chart_mount_example)
  from h1 h2 h3 l1 c3 c4 l2 show ?thesis by blast
qed

text \<open>
  The claim as it was stated has one regenerate call for every field change. With the
  columns \<open>name\<close> and \<open>age\<close> the chart starts on the x axis \<open>name\<close>; choosing the
  empty entry of the x axis selector is a field change, and no call goes out.
\<close>

theorem config_change_counterexample:
  "chartConfig (chart_mount ''d1'' [''name'', ''age''] [''age'']) ''x_axis'' = Some ''name''
   \<and> chartConfig (chart_step (HandleConfigChange ''x_axis'' '''')
        (chart_mount ''d1'' [''name'', ''age''] [''age''])) ''x_axis'' = Some ''''
   \<and> chart_calls (chart_step (HandleConfigChange ''x_axis'' '''')
        (chart_mount ''d1'' [''name'', ''age''] [''age'']))
     = chart_calls (chart_mount ''d1'' [''name'', ''age''] [''age''])"
  by (simp add: chart_mount_def chart_effect_def initial_chartConfig_def truthy_def
      first_or_empty_def generateChart_start_def chart_commit_def handleConfigChange_def
      setChartConfig_def)

end
